theory Spec2Isabelle
  imports Main
begin

section \<open>Python values, exceptions and the world the utilities act on\<close>

text \<open>
  The module \<^verbatim>\<open>src/WineQuality/utils/common.py\<close> is I/O plumbing: every function reads
  or writes the filesystem, the logger and (for \<^verbatim>\<open>read_yaml\<close>) the module-level
  dictionary \<^verbatim>\<open>_yaml_cache\<close>. The model threads one record, the world, through every
  call. The world also keeps a chronological trace of the observable effects (filesystem
  calls, log lines, cache stores), so that statements about the order of effects and
  about calls that touch nothing can be written down.

  A path is the list of its segments below the working directory; the empty list is the
  working directory itself. Segments \<^verbatim>\<open>.\<close> and \<^verbatim>\<open>..\<close>, absolute paths and symbolic
  links are outside the model.
\<close>

type_synonym path = "string list"

fun path_str :: "path \<Rightarrow> string" where
  "path_str [] = ''.''"
| "path_str [x] = x"
| "path_str (x # y # ys) = x @ ''/'' @ path_str (y # ys)"

datatype exn_class =
    EnsureError | TypeError | ValueError | BoxValueError
  | FileNotFoundError | IsADirectoryError | NotADirectoryError | FileExistsError
  | OverflowError
  | LibraryError string

text \<open>An exception object: its class and the text \<^verbatim>\<open>str(e)\<close> gives.\<close>

datatype exn = Exn (exn_class: exn_class) (exn_msg: string)

datatype pyval =
    PNone | PBool bool | PInt int | PStr string | PPath path
  | PList "pyval list"
  | PDict "(pyval \<times> pyval) list"
  | PBox "(pyval \<times> pyval) list"

datatype node = File string | Dir

datatype event =
    FsOpenRead path | FsOpenWrite path | FsStat path | FsStatFd int | FsMkdir path
  | LogInfo string | LogError string
  | CacheStore path

record world =
  fs :: "path \<rightharpoonup> node"
  yaml_cache :: "path \<rightharpoonup> pyval"
  trace :: "event list"

definition emit :: "event \<Rightarrow> world \<Rightarrow> world" where
  "emit e w = w\<lparr>trace := trace w @ [e]\<rparr>"

text \<open>
  The libraries the module calls are not part of the repository. Their parsers and
  serialisers are parameters of the model: \<^verbatim>\<open>yaml.safe_load\<close>, \<^verbatim>\<open>json.dump\<close> (the text
  it has written and the exception it stopped with, if any), \<^verbatim>\<open>json.load\<close>,
  \<^verbatim>\<open>joblib.dump\<close>, \<^verbatim>\<open>joblib.load\<close>, and what \<^verbatim>\<open>isinstance(v, typing.Any)\<close> does
  (CPython raises \<^verbatim>\<open>TypeError\<close> there). \<^verbatim>\<open>json_dump\<close> stands for the call with
  \<^verbatim>\<open>indent=4\<close>. The table of open file descriptors of the process is a parameter too:
  \<^verbatim>\<open>fd_open\<close> tells whether \<^verbatim>\<open>os.stat\<close> succeeds on a descriptor.
\<close>

record libs =
  safe_load :: "string \<Rightarrow> exn + pyval"
  json_dump :: "pyval \<Rightarrow> string \<times> exn option"
  json_load :: "string \<Rightarrow> exn + pyval"
  joblib_dump :: "pyval \<Rightarrow> string \<times> exn option"
  joblib_load :: "string \<Rightarrow> exn + pyval"
  isinstance_Any :: "pyval \<Rightarrow> exn + bool"
  fd_open :: "int \<Rightarrow> bool"

subsection \<open>Printing integers\<close>

text \<open>\<^verbatim>\<open>str\<close> of an integer: its decimal digits, with a minus sign when it is negative.\<close>

definition digit_char :: "nat \<Rightarrow> char" where
  "digit_char d = ''0123456789'' ! d"

fun show_nat :: "nat \<Rightarrow> string" where
  "show_nat n = (if n < 10 then [digit_char n] else show_nat (n div 10) @ [digit_char (n mod 10)])"

declare show_nat.simps [simp del]

definition show_int :: "int \<Rightarrow> string" where
  "show_int i = (if i < 0 then ''-'' @ show_nat (nat (- i)) else show_nat (nat i))"

subsection \<open>Filesystem primitives\<close>

text \<open>
  \<^verbatim>\<open>stat\<close> walks the segments from the working directory: a missing segment is
  \<^verbatim>\<open>ENOENT\<close>, a regular file in the middle of the path is \<^verbatim>\<open>ENOTDIR\<close>.
\<close>

fun walk :: "(path \<rightharpoonup> node) \<Rightarrow> path \<Rightarrow> path \<Rightarrow> exn_class + node" where
  "walk f pre [] = Inr Dir"
| "walk f pre [x] =
     (case f (pre @ [x]) of None \<Rightarrow> Inl FileNotFoundError | Some n \<Rightarrow> Inr n)"
| "walk f pre (x # y # ys) =
     (case f (pre @ [x]) of
        None \<Rightarrow> Inl FileNotFoundError
      | Some (File c) \<Rightarrow> Inl NotADirectoryError
      | Some Dir \<Rightarrow> walk f (pre @ [x]) (y # ys))"

definition stat :: "(path \<rightharpoonup> node) \<Rightarrow> path \<Rightarrow> exn_class + node" where
  "stat f p = walk f [] p"

definition os_error :: "exn_class \<Rightarrow> path \<Rightarrow> exn" where
  "os_error c p =
     Exn c ((if c = FileNotFoundError then ''[Errno 2] No such file or directory: ''
             else if c = NotADirectoryError then ''[Errno 20] Not a directory: ''
             else if c = IsADirectoryError then ''[Errno 21] Is a directory: ''
             else if c = FileExistsError then ''[Errno 17] File exists: ''
             else ''[Errno] '') @ [CHR 0x27] @ path_str p @ [CHR 0x27])"

text \<open>\<^verbatim>\<open>open(path)\<close> followed by reading the whole file.\<close>

definition open_read :: "path \<Rightarrow> world \<Rightarrow> (exn + string) \<times> world" where
  "open_read p w =
     (let w1 = emit (FsOpenRead p) w in
      case stat (fs w) p of
        Inl c \<Rightarrow> (Inl (os_error c p), w1)
      | Inr Dir \<Rightarrow> (Inl (os_error IsADirectoryError p), w1)
      | Inr (File txt) \<Rightarrow> (Inr txt, w1))"

subsection \<open>The Box constructor\<close>

text \<open>
  \<^verbatim>\<open>ConfigBox(content)\<close> is the constructor of python-box: a string raises
  \<^verbatim>\<open>BoxValueError\<close>, a mapping is copied item by item, any other iterable is read as a
  sequence of key/value pairs, and everything else raises \<^verbatim>\<open>BoxValueError\<close>. Nested
  dictionaries and lists become Box and BoxList objects that compare equal to the
  originals; the model keeps them as they are.
\<close>

fun hashable :: "pyval \<Rightarrow> bool" where
  "hashable (PList xs) = False"
| "hashable (PDict kvs) = False"
| "hashable (PBox kvs) = False"
| "hashable v = True"

text \<open>Dictionary keys compare as Python values do: \<^verbatim>\<open>True == 1\<close> and \<^verbatim>\<open>False == 0\<close>.\<close>

fun key_norm :: "pyval \<Rightarrow> pyval" where
  "key_norm (PBool b) = PInt (if b then 1 else 0)"
| "key_norm v = v"

fun dict_set :: "(pyval \<times> pyval) list \<Rightarrow> pyval \<Rightarrow> pyval \<Rightarrow> (pyval \<times> pyval) list" where
  "dict_set [] k v = [(k, v)]"
| "dict_set ((k', v') # kvs) k v =
     (if key_norm k' = key_norm k then (k', v) # kvs else (k', v') # dict_set kvs k v)"

text \<open>
  The name of the class of a value, as CPython 3.11 prints it in the text of a
  \<^verbatim>\<open>TypeError\<close>.
\<close>

fun type_name :: "pyval \<Rightarrow> string" where
  "type_name PNone = ''NoneType''"
| "type_name (PBool b) = ''bool''"
| "type_name (PInt i) = ''int''"
| "type_name (PStr s) = ''str''"
| "type_name (PPath p) = ''PosixPath''"
| "type_name (PList xs) = ''list''"
| "type_name (PDict kvs) = ''dict''"
| "type_name (PBox kvs) = ''ConfigBox''"

text \<open>
  \<^verbatim>\<open>for k, v in content\<close> unpacks every element into two names: a list gives its
  elements, a string its characters, a dictionary its keys. The texts of the
  exceptions are those of CPython 3.11.
\<close>

fun unpack_seq :: "pyval list \<Rightarrow> exn + (pyval \<times> pyval)" where
  "unpack_seq [] = Inl (Exn ValueError ''not enough values to unpack (expected 2, got 0)'')"
| "unpack_seq [a] = Inl (Exn ValueError ''not enough values to unpack (expected 2, got 1)'')"
| "unpack_seq [a, b] = Inr (a, b)"
| "unpack_seq (a # b # c # rest) = Inl (Exn ValueError ''too many values to unpack (expected 2)'')"

fun unpack_pair :: "pyval \<Rightarrow> exn + (pyval \<times> pyval)" where
  "unpack_pair (PList xs) = unpack_seq xs"
| "unpack_pair (PStr s) = unpack_seq (map (\<lambda>c. PStr [c]) s)"
| "unpack_pair (PDict kvs) = unpack_seq (map fst kvs)"
| "unpack_pair (PBox kvs) = unpack_seq (map fst kvs)"
| "unpack_pair v =
     Inl (Exn TypeError (''cannot unpack non-iterable '' @ type_name v @ '' object''))"

definition unhashable :: "pyval \<Rightarrow> exn" where
  "unhashable k = Exn TypeError (''unhashable type: '' @ [CHR 0x27] @ type_name k @ [CHR 0x27])"

fun box_fill :: "(pyval \<times> pyval) list \<Rightarrow> (pyval \<times> pyval) list \<Rightarrow> exn + (pyval \<times> pyval) list" where
  "box_fill acc [] = Inr acc"
| "box_fill acc ((k, v) # kvs) =
     (if hashable k then box_fill (dict_set acc k v) kvs else Inl (unhashable k))"

fun box_fill_pairs :: "(pyval \<times> pyval) list \<Rightarrow> pyval list \<Rightarrow> exn + (pyval \<times> pyval) list" where
  "box_fill_pairs acc [] = Inr acc"
| "box_fill_pairs acc (x # xs) =
     (case unpack_pair x of
        Inl e \<Rightarrow> Inl e
      | Inr (k, v) \<Rightarrow>
          (if hashable k then box_fill_pairs (dict_set acc k v) xs else Inl (unhashable k)))"

fun ConfigBox :: "pyval \<Rightarrow> exn + pyval" where
  "ConfigBox (PStr s) = Inl (Exn BoxValueError ''Cannot extrapolate Box from string'')"
| "ConfigBox (PDict kvs) = map_sum id PBox (box_fill [] kvs)"
| "ConfigBox (PBox kvs) = map_sum id PBox (box_fill [] kvs)"
| "ConfigBox (PList xs) = map_sum id PBox (box_fill_pairs [] xs)"
| "ConfigBox v = Inl (Exn BoxValueError ''First argument must be mapping or iterable'')"



section \<open>read_yaml\<close>

text \<open>
  Lines 36 to 43, the body of the \<^verbatim>\<open>try\<close>: open the file, parse it, log, build the
  ConfigBox, store it in the cache, return it. The log line is written as soon as
  \<^verbatim>\<open>yaml.safe_load\<close> has returned, before the ConfigBox is built.
\<close>

definition read_yaml_try :: "libs \<Rightarrow> path \<Rightarrow> world \<Rightarrow> (exn + pyval) \<times> world" where
  "read_yaml_try L path_to_yaml w =
     (case open_read path_to_yaml w of
        (Inl e, w1) \<Rightarrow> (Inl e, w1)
      | (Inr yaml_file, w1) \<Rightarrow>
          (case safe_load L yaml_file of
             Inl e \<Rightarrow> (Inl e, w1)
           | Inr content \<Rightarrow>
               (let w2 = emit (LogInfo (''yaml file: '' @ path_str path_to_yaml
                                        @ '' loaded successfully'')) w1 in
                case ConfigBox content of
                  Inl e \<Rightarrow> (Inl e, w2)
                | Inr config \<Rightarrow>
                    (Inr config,
                     emit (CacheStore path_to_yaml)
                       (w2\<lparr>yaml_cache := (yaml_cache w2)(path_to_yaml \<mapsto> config)\<rparr>)))))"

text \<open>Lines 44 to 50, the two \<^verbatim>\<open>except\<close> clauses, in the order of the source.\<close>

definition read_yaml_except :: "path \<Rightarrow> exn \<Rightarrow> world \<Rightarrow> (exn + pyval) \<times> world" where
  "read_yaml_except path_to_yaml e w =
     (if exn_class e = BoxValueError then (Inl (Exn ValueError ''yaml file is empty''), w)
      else (Inl e,
            emit (LogError (''Error reading YAML file at '' @ path_str path_to_yaml
                            @ '': '' @ exn_msg e)) w))"

definition read_yaml :: "libs \<Rightarrow> path \<Rightarrow> world \<Rightarrow> (exn + pyval) \<times> world" where
  "read_yaml L path_to_yaml w =
     (case yaml_cache w path_to_yaml of
        Some cached \<Rightarrow>
          (Inr cached,
           emit (LogInfo (''yaml file: '' @ path_str path_to_yaml @ '' retrieved from cache'')) w)
      | None \<Rightarrow>
          (case read_yaml_try L path_to_yaml w of
             (Inr config, w1) \<Rightarrow> (Inr config, w1)
           | (Inl e, w1) \<Rightarrow> read_yaml_except path_to_yaml e w1))"

section \<open>Directory and file primitives of the os module\<close>

text \<open>\<^verbatim>\<open>os.path.exists\<close> and \<^verbatim>\<open>os.path.isdir\<close>: one \<^verbatim>\<open>stat\<close> call, false on any error.\<close>

definition os_path_exists :: "path \<Rightarrow> world \<Rightarrow> bool \<times> world" where
  "os_path_exists p w =
     ((case stat (fs w) p of Inl c \<Rightarrow> False | Inr n \<Rightarrow> True), emit (FsStat p) w)"

definition os_path_isdir :: "path \<Rightarrow> world \<Rightarrow> bool \<times> world" where
  "os_path_isdir p w =
     ((case stat (fs w) p of Inr Dir \<Rightarrow> True | _ \<Rightarrow> False), emit (FsStat p) w)"

text \<open>
  \<^verbatim>\<open>os.path.getsize\<close>: the length of a regular file. For a directory the call returns
  the size of the directory entry, which depends on the filesystem; the model takes the
  4096 bytes of a small ext4 directory.
\<close>

definition dir_st_size :: nat where
  "dir_st_size = 4096"

definition os_path_getsize :: "path \<Rightarrow> world \<Rightarrow> (exn + nat) \<times> world" where
  "os_path_getsize p w =
     ((case stat (fs w) p of
         Inl c \<Rightarrow> Inl (os_error c p)
       | Inr (File content) \<Rightarrow> Inr (length content)
       | Inr Dir \<Rightarrow> Inr dir_st_size),
      emit (FsStat p) w)"

text \<open>
  \<^verbatim>\<open>os.mkdir\<close>: the parent must resolve to a directory and the name must be free.
\<close>

definition os_mkdir :: "path \<Rightarrow> world \<Rightarrow> (exn + unit) \<times> world" where
  "os_mkdir p w =
     (let w1 = emit (FsMkdir p) w in
      if p = [] then (Inl (os_error FileExistsError p), w1)
      else
        (case stat (fs w) (butlast p) of
           Inl c \<Rightarrow> (Inl (os_error c p), w1)
         | Inr (File content) \<Rightarrow> (Inl (os_error NotADirectoryError p), w1)
         | Inr Dir \<Rightarrow>
             (case fs w p of
                Some n \<Rightarrow> (Inl (os_error FileExistsError p), w1)
              | None \<Rightarrow> (Inr (), w1\<lparr>fs := (fs w1)(p \<mapsto> Dir)\<rparr>))))"

text \<open>
  \<^verbatim>\<open>os.makedirs(name, exist_ok)\<close> as CPython writes it: create the parent first when it
  is missing (a \<^verbatim>\<open>FileExistsError\<close> from that is ignored), then \<^verbatim>\<open>mkdir\<close> the name;
  an \<^verbatim>\<open>OSError\<close> from \<^verbatim>\<open>mkdir\<close> is swallowed when \<^verbatim>\<open>exist_ok\<close> holds and the name is
  a directory.
\<close>

function makedirs :: "path \<Rightarrow> bool \<Rightarrow> world \<Rightarrow> (exn + unit) \<times> world" where
  "makedirs name exist_ok w =
     (let head = butlast name;
          (r0, w0) =
            (if head \<noteq> [] then
               (case os_path_exists head w of
                  (True, wa) \<Rightarrow> (Inr (), wa)
                | (False, wa) \<Rightarrow>
                    (case makedirs head exist_ok wa of
                       (Inl e, wb) \<Rightarrow>
                         if exn_class e = FileExistsError then (Inr (), wb) else (Inl e, wb)
                     | (Inr u, wb) \<Rightarrow> (Inr (), wb)))
             else (Inr (), w))
      in case r0 of
           Inl e \<Rightarrow> (Inl e, w0)
         | Inr u \<Rightarrow>
             (case os_mkdir name w0 of
                (Inr u, w1) \<Rightarrow> (Inr (), w1)
              | (Inl e, w1) \<Rightarrow>
                  if \<not> exist_ok then (Inl e, w1)
                  else (case os_path_isdir name w1 of
                          (True, w2) \<Rightarrow> (Inr (), w2)
                        | (False, w2) \<Rightarrow> (Inl e, w2))))"
  by pat_completeness auto
termination
  apply (relation "measure (\<lambda>(name, exist_ok, w). length name)")
   apply simp
  apply (case_tac name)
   apply simp_all
  done

text \<open>
  \<^verbatim>\<open>open(path, "w")\<close>: the parent must resolve to a directory and the name must not be a
  directory; the file is created or truncated.
\<close>

definition open_write :: "path \<Rightarrow> world \<Rightarrow> (exn + unit) \<times> world" where
  "open_write p w =
     (let w1 = emit (FsOpenWrite p) w in
      if p = [] then (Inl (os_error IsADirectoryError p), w1)
      else
        (case stat (fs w) (butlast p) of
           Inl c \<Rightarrow> (Inl (os_error c p), w1)
         | Inr (File content) \<Rightarrow> (Inl (os_error NotADirectoryError p), w1)
         | Inr Dir \<Rightarrow>
             (case fs w p of
                Some Dir \<Rightarrow> (Inl (os_error IsADirectoryError p), w1)
              | _ \<Rightarrow> (Inr (), w1\<lparr>fs := (fs w1)(p \<mapsto> File [])\<rparr>))))"

definition write_file :: "path \<Rightarrow> string \<Rightarrow> world \<Rightarrow> world" where
  "write_file p content w = w\<lparr>fs := (fs w)(p \<mapsto> File content)\<rparr>"

section \<open>create_directories\<close>

text \<open>
  The elements of the list go to \<^verbatim>\<open>os.path.exists\<close> and \<^verbatim>\<open>os.makedirs\<close> as they are.
  A \<^verbatim>\<open>str\<close> or a \<^verbatim>\<open>Path\<close> is a path; a string is split at its slashes (the empty
  string and strings with a leading, trailing or doubled slash are outside the model,
  like absolute paths). An \<^verbatim>\<open>int\<close> or a \<^verbatim>\<open>bool\<close> is read by \<^verbatim>\<open>os.path.exists\<close> as
  a file descriptor, which must fit a C \<^verbatim>\<open>int\<close>; \<^verbatim>\<open>os.makedirs\<close> refuses it. Any other
  element makes \<^verbatim>\<open>os.path.exists\<close> raise \<^verbatim>\<open>TypeError\<close> before any system call. The
  second component is what \<^verbatim>\<open>str\<close> prints for the element in the f-strings.
\<close>

fun split_segments :: "string \<Rightarrow> string \<Rightarrow> path" where
  "split_segments cur [] = (if cur = [] then [] else [cur])"
| "split_segments cur (c # cs) =
     (if c = CHR ''/'' then (if cur = [] then split_segments [] cs
                            else cur # split_segments [] cs)
      else split_segments (cur @ [c]) cs)"

datatype fsarg = ByPath path | ByFd int

fun path_element :: "pyval \<Rightarrow> (fsarg \<times> string) option" where
  "path_element (PStr s) = Some (ByPath (split_segments [] s), s)"
| "path_element (PPath p) = Some (ByPath p, path_str p)"
| "path_element (PInt i) = Some (ByFd i, show_int i)"
| "path_element (PBool b) = Some (ByFd (if b then 1 else 0), if b then ''True'' else ''False'')"
| "path_element v = None"

definition log_if :: "bool \<Rightarrow> string \<Rightarrow> world \<Rightarrow> world" where
  "log_if verbose line w = (if verbose then emit (LogInfo line) w else w)"

fun create_directories :: "libs \<Rightarrow> pyval list \<Rightarrow> bool \<Rightarrow> world \<Rightarrow> (exn + pyval) \<times> world" where
  "create_directories L [] verbose w = (Inr PNone, w)"
| "create_directories L (path # rest) verbose w =
     (case path_element path of
        None \<Rightarrow>
          (Inl (Exn TypeError (''stat: path should be string, bytes, os.PathLike or integer, not ''
                               @ type_name path)), w)
      | Some (ByFd fd, printed) \<Rightarrow>
          (if 2 ^ 31 \<le> fd then (Inl (Exn OverflowError ''fd is greater than maximum''), w)
           else if fd < - (2 ^ 31) then (Inl (Exn OverflowError ''fd is less than minimum''), w)
           else if fd_open L fd then
             create_directories L rest verbose
               (log_if verbose (''Directory already exists at: '' @ printed) (emit (FsStatFd fd) w))
           else
             (Inl (Exn TypeError (''expected str, bytes or os.PathLike object, not ''
                                  @ type_name path)),
              emit (FsStatFd fd) w))
      | Some (ByPath p, printed) \<Rightarrow>
          (case os_path_exists p w of
             (False, w1) \<Rightarrow>
               (case makedirs p True w1 of
                  (Inl e, w2) \<Rightarrow> (Inl e, w2)
                | (Inr u, w2) \<Rightarrow>
                    create_directories L rest verbose
                      (log_if verbose (''Created directory at: '' @ printed) w2))
           | (True, w1) \<Rightarrow>
               create_directories L rest verbose
                 (log_if verbose (''Directory already exists at: '' @ printed) w1)))"

section \<open>save_json and load_json\<close>

definition save_json :: "libs \<Rightarrow> path \<Rightarrow> pyval \<Rightarrow> world \<Rightarrow> (exn + pyval) \<times> world" where
  "save_json L path data w =
     (case open_write path w of
        (Inl e, w1) \<Rightarrow> (Inl e, w1)
      | (Inr f, w1) \<Rightarrow>
          (case json_dump L data of
             (written, Some e) \<Rightarrow> (Inl e, write_file path written w1)
           | (written, None) \<Rightarrow>
               (Inr PNone,
                emit (LogInfo (''JSON file saved at: '' @ path_str path))
                  (write_file path written w1))))"

definition load_json :: "libs \<Rightarrow> path \<Rightarrow> world \<Rightarrow> (exn + pyval) \<times> world" where
  "load_json L path w =
     (case open_read path w of
        (Inl e, w1) \<Rightarrow> (Inl e, w1)
      | (Inr f, w1) \<Rightarrow>
          (case json_load L f of
             Inl e \<Rightarrow> (Inl e, w1)
           | Inr content \<Rightarrow>
               (let w2 = emit (LogInfo (''JSON file loaded successfully from: ''
                                        @ path_str path)) w1 in
                case ConfigBox content of
                  Inl e \<Rightarrow> (Inl e, w2)
                | Inr box \<Rightarrow> (Inr box, w2))))"

section \<open>save_bin and load_bin\<close>

text \<open>
  \<^verbatim>\<open>joblib.dump\<close> opens the file for writing and pickles into it; \<^verbatim>\<open>joblib.load\<close>
  opens it for reading and unpickles.
\<close>

definition save_bin :: "libs \<Rightarrow> pyval \<Rightarrow> path \<Rightarrow> world \<Rightarrow> (exn + pyval) \<times> world" where
  "save_bin L data path w =
     (case open_write path w of
        (Inl e, w1) \<Rightarrow> (Inl e, w1)
      | (Inr f, w1) \<Rightarrow>
          (case joblib_dump L data of
             (written, Some e) \<Rightarrow> (Inl e, write_file path written w1)
           | (written, None) \<Rightarrow>
               (Inr PNone,
                emit (LogInfo (''Binary file saved at: '' @ path_str path))
                  (write_file path written w1))))"

definition load_bin :: "libs \<Rightarrow> path \<Rightarrow> world \<Rightarrow> (exn + pyval) \<times> world" where
  "load_bin L path w =
     (case open_read path w of
        (Inl e, w1) \<Rightarrow> (Inl e, w1)
      | (Inr f, w1) \<Rightarrow>
          (case joblib_load L f of
             Inl e \<Rightarrow> (Inl e, w1)
           | Inr data \<Rightarrow>
               (Inr data, emit (LogInfo (''Binary file loaded from: '' @ path_str path)) w1)))"

section \<open>get_size\<close>

text \<open>
  The f-strings of \<^verbatim>\<open>get_size\<close>. \<^verbatim>\<open>{n}\<close> prints the integer in decimal
  (\<^const>\<open>show_nat\<close>).
  \<^verbatim>\<open>n / 1024\<close> and \<^verbatim>\<open>n / (1024 ** 2)\<close> are the doubles nearest to the quotients; the
  divisor is a power of two, so the double is \<^verbatim>\<open>n\<close> rounded to 53 significant bits
  (ties to even) over the divisor, and it is the exact quotient for every size below
  \<^verbatim>\<open>2 ** 53\<close>. \<^verbatim>\<open>:.2f\<close> prints the double rounded to hundredths, ties to even.
\<close>

fun bit_length :: "nat \<Rightarrow> nat" where
  "bit_length n = (if n = 0 then 0 else Suc (bit_length (n div 2)))"

declare bit_length.simps [simp del]

definition round_half_even :: "nat \<Rightarrow> nat \<Rightarrow> nat" where
  "round_half_even a b =
     (let q = a div b; r = a mod b in
      if 2 * r < b then q else if b < 2 * r then q + 1 else if even q then q else q + 1)"

definition round53 :: "nat \<Rightarrow> nat" where
  "round53 n =
     (if n < 2 ^ 53 then n
      else (let sh = bit_length n - 53 in round_half_even n (2 ^ sh) * 2 ^ sh))"

definition format_2f :: "nat \<Rightarrow> nat \<Rightarrow> string" where
  "format_2f num den =
     (let h = round_half_even (100 * round53 num) den in
      show_nat (h div 100) @ ''.'' @ [digit_char (h div 10 mod 10), digit_char (h mod 10)])"

definition get_size :: "path \<Rightarrow> world \<Rightarrow> (exn + pyval) \<times> world" where
  "get_size path w =
     (case os_path_getsize path w of
        (Inl e, w1) \<Rightarrow> (Inl e, w1)
      | (Inr size_in_bytes, w1) \<Rightarrow>
          (if size_in_bytes < 1024 then
             (Inr (PStr (show_nat size_in_bytes @ '' bytes'')), w1)
           else if size_in_bytes < 1024 ^ 2 then
             (Inr (PStr (''~ '' @ format_2f size_in_bytes 1024 @ '' KB'')), w1)
           else
             (Inr (PStr (''~ '' @ format_2f size_in_bytes (1024 ^ 2) @ '' MB'')), w1)))"

section \<open>The ensure_annotations decorator\<close>

text \<open>
  Every function of the module is wrapped by \<^verbatim>\<open>ensure_annotations\<close> of the ensure
  package. The wrapper tests each positional argument whose parameter has an
  annotation with \<^verbatim>\<open>isinstance\<close>, in the order of the parameters, and raises
  \<^verbatim>\<open>EnsureError\<close> at the first that fails; then it calls the function; when the
  function has a return annotation it tests the returned value the same way. A Box is
  a \<^verbatim>\<open>dict\<close>. The text of an \<^verbatim>\<open>EnsureError\<close> holds the \<^verbatim>\<open>repr\<close> of the function,
  which ends in its address; the model writes it without the address. Keyword
  arguments are outside the model.
\<close>

datatype pytype = TPath | TList | TDict | TStr | TConfigBox | TAny

fun isinstance_class :: "pyval \<Rightarrow> pytype \<Rightarrow> bool" where
  "isinstance_class (PPath p) TPath = True"
| "isinstance_class (PList xs) TList = True"
| "isinstance_class (PDict kvs) TDict = True"
| "isinstance_class (PBox kvs) TDict = True"
| "isinstance_class (PBox kvs) TConfigBox = True"
| "isinstance_class (PStr s) TStr = True"
| "isinstance_class v t = False"

definition isinstance :: "libs \<Rightarrow> pyval \<Rightarrow> pytype \<Rightarrow> exn + bool" where
  "isinstance L v t = (if t = TAny then isinstance_Any L v else Inr (isinstance_class v t))"

text \<open>\<^verbatim>\<open>repr(type(v))\<close> and the \<^verbatim>\<open>repr\<close> of an annotation.\<close>

fun class_repr :: "pyval \<Rightarrow> string" where
  "class_repr PNone = ''<class 'NoneType'>''"
| "class_repr (PBool b) = ''<class 'bool'>''"
| "class_repr (PInt i) = ''<class 'int'>''"
| "class_repr (PStr s) = ''<class 'str'>''"
| "class_repr (PPath p) = ''<class 'pathlib.PosixPath'>''"
| "class_repr (PList xs) = ''<class 'list'>''"
| "class_repr (PDict kvs) = ''<class 'dict'>''"
| "class_repr (PBox kvs) = ''<class 'box.config_box.ConfigBox'>''"

fun pytype_repr :: "pytype \<Rightarrow> string" where
  "pytype_repr TPath = ''<class 'pathlib.Path'>''"
| "pytype_repr TList = ''<class 'list'>''"
| "pytype_repr TDict = ''<class 'dict'>''"
| "pytype_repr TStr = ''<class 'str'>''"
| "pytype_repr TConfigBox = ''<class 'box.config_box.ConfigBox'>''"
| "pytype_repr TAny = ''typing.Any''"

definition function_repr :: "string \<Rightarrow> string" where
  "function_repr f = ''<function '' @ f @ ''>''"

text \<open>
  The loop over the annotated parameters: each positional argument is paired with the
  name of its parameter and the annotation, if there is one.
\<close>

fun check_args :: "libs \<Rightarrow> string \<Rightarrow> (pyval \<times> string \<times> pytype option) list \<Rightarrow> exn option" where
  "check_args L f [] = None"
| "check_args L f ((v, arg, None) # rest) = check_args L f rest"
| "check_args L f ((v, arg, Some t) # rest) =
     (case isinstance L v t of
        Inl e \<Rightarrow> Some e
      | Inr False \<Rightarrow>
          Some (Exn EnsureError
                  (''Argument '' @ arg @ '' of type '' @ class_repr v @ '' to '' @ function_repr f
                   @ '' does not match annotation type '' @ pytype_repr t))
      | Inr True \<Rightarrow> check_args L f rest)"

definition ensure_annotations ::
  "libs \<Rightarrow> string \<Rightarrow> (string \<times> pytype option) list \<Rightarrow> pytype option
     \<Rightarrow> (pyval list \<Rightarrow> world \<Rightarrow> (exn + pyval) \<times> world)
     \<Rightarrow> pyval list \<Rightarrow> world \<Rightarrow> (exn + pyval) \<times> world" where
  "ensure_annotations L f params return_type body args w =
     (case check_args L f (zip args params) of
        Some e \<Rightarrow> (Inl e, w)
      | None \<Rightarrow>
          (case body args w of
             (Inl e, w1) \<Rightarrow> (Inl e, w1)
           | (Inr return_val, w1) \<Rightarrow>
               (case return_type of
                  None \<Rightarrow> (Inr return_val, w1)
                | Some t \<Rightarrow>
                    (case isinstance L return_val t of
                       Inl e \<Rightarrow> (Inl e, w1)
                     | Inr False \<Rightarrow>
                         (Inl (Exn EnsureError
                                 (''Return value of '' @ function_repr f @ '' of type ''
                                  @ class_repr return_val
                                  @ '' does not match annotation type '' @ pytype_repr t)), w1)
                     | Inr True \<Rightarrow> (Inr return_val, w1)))))"

text \<open>
  The decorated functions, called with positional arguments. A call whose arguments do
  not fit the parameter list is a \<^verbatim>\<open>TypeError\<close> of the call itself, raised after the
  wrapper has tested the arguments it was given.
\<close>

definition bad_call :: "world \<Rightarrow> (exn + pyval) \<times> world" where
  "bad_call w = (Inl (Exn TypeError ''the arguments do not fit the parameters''), w)"

fun truthy :: "pyval \<Rightarrow> bool" where
  "truthy PNone = False"
| "truthy (PBool b) = b"
| "truthy (PInt i) = (i \<noteq> 0)"
| "truthy (PStr s) = (s \<noteq> [])"
| "truthy (PPath p) = True"
| "truthy (PList xs) = (xs \<noteq> [])"
| "truthy (PDict kvs) = (kvs \<noteq> [])"
| "truthy (PBox kvs) = (kvs \<noteq> [])"

definition checked_read_yaml :: "libs \<Rightarrow> pyval list \<Rightarrow> world \<Rightarrow> (exn + pyval) \<times> world" where
  "checked_read_yaml L =
     ensure_annotations L ''read_yaml'' [(''path_to_yaml'', Some TPath)] (Some TConfigBox)
       (\<lambda>args w. case args of [PPath path_to_yaml] \<Rightarrow> read_yaml L path_to_yaml w
                             | _ \<Rightarrow> bad_call w)"

definition checked_create_directories ::
  "libs \<Rightarrow> pyval list \<Rightarrow> world \<Rightarrow> (exn + pyval) \<times> world" where
  "checked_create_directories L =
     ensure_annotations L ''create_directories''
       [(''path_to_directories'', Some TList), (''verbose'', None)] None
       (\<lambda>args w. case args of
                    [PList path_to_directories] \<Rightarrow>
                      create_directories L path_to_directories True w
                  | [PList path_to_directories, verbose] \<Rightarrow>
                      create_directories L path_to_directories (truthy verbose) w
                  | _ \<Rightarrow> bad_call w)"

definition checked_save_json :: "libs \<Rightarrow> pyval list \<Rightarrow> world \<Rightarrow> (exn + pyval) \<times> world" where
  "checked_save_json L =
     ensure_annotations L ''save_json'' [(''path'', Some TPath), (''data'', Some TDict)] None
       (\<lambda>args w. case args of [PPath path, data] \<Rightarrow> save_json L path data w
                             | _ \<Rightarrow> bad_call w)"

definition checked_load_json :: "libs \<Rightarrow> pyval list \<Rightarrow> world \<Rightarrow> (exn + pyval) \<times> world" where
  "checked_load_json L =
     ensure_annotations L ''load_json'' [(''path'', Some TPath)] (Some TConfigBox)
       (\<lambda>args w. case args of [PPath path] \<Rightarrow> load_json L path w
                             | _ \<Rightarrow> bad_call w)"

definition checked_save_bin :: "libs \<Rightarrow> pyval list \<Rightarrow> world \<Rightarrow> (exn + pyval) \<times> world" where
  "checked_save_bin L =
     ensure_annotations L ''save_bin'' [(''data'', Some TAny), (''path'', Some TPath)] None
       (\<lambda>args w. case args of [data, PPath path] \<Rightarrow> save_bin L data path w
                             | _ \<Rightarrow> bad_call w)"

definition checked_load_bin :: "libs \<Rightarrow> pyval list \<Rightarrow> world \<Rightarrow> (exn + pyval) \<times> world" where
  "checked_load_bin L =
     ensure_annotations L ''load_bin'' [(''path'', Some TPath)] (Some TAny)
       (\<lambda>args w. case args of [PPath path] \<Rightarrow> load_bin L path w
                             | _ \<Rightarrow> bad_call w)"

definition checked_get_size :: "libs \<Rightarrow> pyval list \<Rightarrow> world \<Rightarrow> (exn + pyval) \<times> world" where
  "checked_get_size L =
     ensure_annotations L ''get_size'' [(''path'', Some TPath)] (Some TStr)
       (\<lambda>args w. case args of [PPath path] \<Rightarrow> get_size path w
                             | _ \<Rightarrow> bad_call w)"

section \<open>Predicates on the filesystem and the trace\<close>

text \<open>A filesystem has grown when every change is a new directory.\<close>

definition fs_grows :: "(path \<rightharpoonup> node) \<Rightarrow> (path \<rightharpoonup> node) \<Rightarrow> bool" where
  "fs_grows f g = (\<forall>q. g q = f q \<or> (f q = None \<and> g q = Some Dir))"


fun is_error_line :: "event \<Rightarrow> bool" where
  "is_error_line (LogError m) = True"
| "is_error_line e = False"


text \<open>The error-level lines of the log, in the order they were written.\<close>

definition error_lines :: "world \<Rightarrow> event list" where
  "error_lines w = filter is_error_line (trace w)"

fun is_fs_event :: "event \<Rightarrow> bool" where
  "is_fs_event (LogInfo m) = False"
| "is_fs_event (LogError m) = False"
| "is_fs_event (CacheStore p) = False"
| "is_fs_event e = True"

section \<open>Sample libraries and a sample world\<close>

text \<open>
  The log lines of \<^verbatim>\<open>read_yaml\<close>, as abbreviations for the statements below, and a
  concrete library stub and filesystem on which the statements are evaluated.
\<close>

abbreviation yaml_loaded_line :: "path \<Rightarrow> string" where
  "yaml_loaded_line p \<equiv> ''yaml file: '' @ path_str p @ '' loaded successfully''"
abbreviation yaml_cached_line :: "path \<Rightarrow> string" where
  "yaml_cached_line p \<equiv> ''yaml file: '' @ path_str p @ '' retrieved from cache''"
abbreviation yaml_error_line :: "path \<Rightarrow> exn \<Rightarrow> string" where
  "yaml_error_line p e \<equiv> ''Error reading YAML file at '' @ path_str p @ '': '' @ exn_msg e"

text \<open>What \<^verbatim>\<open>json.dump({"a": 1}, f, indent=4)\<close> writes: three lines.\<close>

definition sample_json :: string where
  "sample_json = ''{'' @ [CHR 0x0A] @ ''    \"a\": 1'' @ [CHR 0x0A] @ ''}''"

definition sample_libs :: libs where
  "sample_libs = \<lparr>
     safe_load = (\<lambda>s. if s = [] then Inr PNone
                       else if s = ''a: 1'' then Inr (PDict [(PStr ''a'', PInt 1)])
                       else if s = ''- 1'' then Inr (PList [PInt 1])
                       else if s = ''{}'' then Inr (PDict [])
                       else if s = ''hello'' then Inr (PStr ''hello'')
                       else Inl (Exn (LibraryError ''yaml.YAMLError'') ''could not parse'')),
     json_dump = (\<lambda>v. if v = PDict [(PStr ''a'', PInt 1)] then (sample_json, None)
                       else ([], Some (Exn TypeError ''Object is not JSON serializable''))),
     json_load = (\<lambda>s. if s = sample_json then Inr (PDict [(PStr ''a'', PInt 1)])
                       else Inl (Exn (LibraryError ''json.JSONDecodeError'') ''Expecting value'')),
     joblib_dump = (\<lambda>v. (''pickle'', None)),
     joblib_load = (\<lambda>s. Inl (Exn (LibraryError ''pickle.UnpicklingError'') ''invalid load key'')),
     isinstance_Any = (\<lambda>v. Inl (Exn TypeError ''typing.Any cannot be used with isinstance()'')),
     fd_open = (\<lambda>fd. 0 \<le> fd \<and> fd \<le> 2)\<rparr>"

definition sample_world :: world where
  "sample_world = \<lparr>
     fs = [[''config.yaml''] \<mapsto> File ''a: 1'', [''empty.yaml''] \<mapsto> File [],
           [''list.yaml''] \<mapsto> File ''- 1'', [''emptymap.yaml''] \<mapsto> File ''{}'',
           [''scalar.yaml''] \<mapsto> File ''hello'', [''data''] \<mapsto> Dir],
     yaml_cache = Map.empty, trace = []\<rparr>"


definition size_world :: "nat \<Rightarrow> world" where
  "size_world n = \<lparr>fs = [[''blob''] \<mapsto> File (replicate n CHR ''x'')],
                    yaml_cache = Map.empty, trace = []\<rparr>"

abbreviation two_decimals :: "nat \<Rightarrow> string" where
  "two_decimals h \<equiv>
     show_nat (h div 100) @ ''.'' @ [digit_char (h div 10 mod 10), digit_char (h mod 10)]"

section \<open>Properties of read_yaml\<close>

lemma stat_error_class:
  "stat f p = Inl c \<Longrightarrow> c = FileNotFoundError \<or> c = NotADirectoryError"
proof -
  have "walk f pre p = Inl c \<Longrightarrow> c = FileNotFoundError \<or> c = NotADirectoryError" for pre
    by (induction f pre p rule: walk.induct) (auto split: option.splits node.splits)
  then show "stat f p = Inl c \<Longrightarrow> c = FileNotFoundError \<or> c = NotADirectoryError"
    by (simp add: stat_def)
qed

lemma open_read_cases:
  "open_read p w =
     (case stat (fs w) p of
        Inl c \<Rightarrow> (Inl (os_error c p), w\<lparr>trace := trace w @ [FsOpenRead p]\<rparr>)
      | Inr Dir \<Rightarrow> (Inl (os_error IsADirectoryError p), w\<lparr>trace := trace w @ [FsOpenRead p]\<rparr>)
      | Inr (File txt) \<Rightarrow> (Inr txt, w\<lparr>trace := trace w @ [FsOpenRead p]\<rparr>))"
  by (simp add: open_read_def emit_def Let_def split: sum.splits node.splits)

lemma os_error_class [simp]: "exn_class (os_error c p) = c"
  by (simp add: os_error_def)

lemma read_yaml_hit:
  "yaml_cache w p = Some d \<Longrightarrow>
   read_yaml L p w = (Inr d, w\<lparr>trace := trace w @ [LogInfo (yaml_cached_line p)]\<rparr>)"
  by (simp add: read_yaml_def emit_def)

lemma read_yaml_miss_loaded:
  assumes "yaml_cache w p = None" and "stat (fs w) p = Inr (File txt)"
    and "safe_load L txt = Inr content" and "ConfigBox content = Inr d"
  shows "read_yaml L p w =
    (Inr d, w\<lparr>yaml_cache := (yaml_cache w)(p \<mapsto> d),
              trace := trace w @ [FsOpenRead p, LogInfo (yaml_loaded_line p), CacheStore p]\<rparr>)"
  using assms by (simp add: read_yaml_def read_yaml_try_def open_read_cases emit_def)

lemma read_yaml_miss_box_error:
  assumes "yaml_cache w p = None" and "stat (fs w) p = Inr (File txt)"
    and "safe_load L txt = Inr content" and "ConfigBox content = Inl e"
  shows "read_yaml L p w =
    (if exn_class e = BoxValueError
     then (Inl (Exn ValueError ''yaml file is empty''),
           w\<lparr>trace := trace w @ [FsOpenRead p, LogInfo (yaml_loaded_line p)]\<rparr>)
     else (Inl e, w\<lparr>trace := trace w @ [FsOpenRead p, LogInfo (yaml_loaded_line p),
                                           LogError (yaml_error_line p e)]\<rparr>))"
  using assms
  by (simp add: read_yaml_def read_yaml_try_def read_yaml_except_def open_read_cases emit_def)

lemma read_yaml_miss_parse_error:
  assumes "yaml_cache w p = None" and "stat (fs w) p = Inr (File txt)"
    and "safe_load L txt = Inl e"
  shows "read_yaml L p w =
    (if exn_class e = BoxValueError
     then (Inl (Exn ValueError ''yaml file is empty''), w\<lparr>trace := trace w @ [FsOpenRead p]\<rparr>)
     else (Inl e, w\<lparr>trace := trace w @ [FsOpenRead p, LogError (yaml_error_line p e)]\<rparr>))"
  using assms
  by (simp add: read_yaml_def read_yaml_try_def read_yaml_except_def open_read_cases emit_def)

lemma read_yaml_miss_open_error:
  assumes "yaml_cache w p = None"
    and "stat (fs w) p = Inl c \<and> e = os_error c p
         \<or> stat (fs w) p = Inr Dir \<and> e = os_error IsADirectoryError p"
  shows "read_yaml L p w =
    (Inl e, w\<lparr>trace := trace w @ [FsOpenRead p, LogError (yaml_error_line p e)]\<rparr>)"
proof -
  from assms(2) have "exn_class e \<noteq> BoxValueError"
    by (auto dest: stat_error_class)
  with assms show ?thesis
    by (auto simp: read_yaml_def read_yaml_try_def read_yaml_except_def open_read_cases emit_def)
qed

text \<open>What a call on a path that is not cached can do, by the state of the file.\<close>

lemma read_yaml_miss_outcomes:
  assumes "yaml_cache w p = None"
  obtains
    (open_error) e where "read_yaml L p w =
        (Inl e, w\<lparr>trace := trace w @ [FsOpenRead p, LogError (yaml_error_line p e)]\<rparr>)"
        and "\<forall>s. stat (fs w) p \<noteq> Inr (File s)"
  | (parse_error) s e where "stat (fs w) p = Inr (File s)" and "safe_load L s = Inl e"
  | (box_error) s content e where "stat (fs w) p = Inr (File s)"
        and "safe_load L s = Inr content" and "ConfigBox content = Inl e"
  | (loaded) s content d where "stat (fs w) p = Inr (File s)"
        and "safe_load L s = Inr content" and "ConfigBox content = Inr d"
proof (cases "stat (fs w) p")
  case (Inl c)
  then show ?thesis
    using read_yaml_miss_open_error[OF assms, of c "os_error c p" L] open_error by auto
next
  case (Inr n)
  show ?thesis
  proof (cases n)
    case Dir
    with Inr show ?thesis
      using read_yaml_miss_open_error[OF assms, of _ "os_error IsADirectoryError p" L] open_error
      by auto
  next
    case (File s)
    with Inr have st: "stat (fs w) p = Inr (File s)" by simp
    show ?thesis
    proof (cases "safe_load L s")
      case (Inl e)
      with st show ?thesis using parse_error by blast
    next
      case (Inr content)
      with st show ?thesis using box_error loaded by (cases "ConfigBox content") blast+
    qed
  qed
qed


lemma read_yaml_valid_result:
  assumes "stat (fs w) p = Inr (File s)" and "safe_load L s = Inr content"
    and "ConfigBox content = Inr cfg"
  shows "\<exists>d w1. read_yaml L p w = (Inr d, w1) \<and> yaml_cache w1 p = Some d"
proof (cases "yaml_cache w p")
  case None
  from read_yaml_miss_loaded[OF None assms] show ?thesis by simp
next
  case (Some c)
  with read_yaml_hit[OF Some, of L] show ?thesis by simp
qed







text \<open>
  Claim C1. For a path holding a valid config file (a regular file that
  \<^verbatim>\<open>yaml.safe_load\<close> parses and from whose content the ConfigBox can be built), a first
  call of \<^verbatim>\<open>read_yaml\<close> returns a document: the ConfigBox built from the parsed
  content of the file when the path was not cached (the file is then opened once), the
  cached document when it was. After the call that document is the cache entry of the
  path and the filesystem is as before. A second call on the resulting world returns
  the same document; it leaves the filesystem and the cache as they are and adds
  exactly one event to the trace, the informational cache-hit log line, so it opens no
  file.
\<close>

theorem read_yaml_cache_idempotent:
  assumes "stat (fs w) p = Inr (File s)" and "safe_load L s = Inr content"
    and "ConfigBox content = Inr cfg"
  shows "\<exists>d w1. read_yaml L p w = (Inr d, w1)
           \<and> d = (case yaml_cache w p of Some cached \<Rightarrow> cached | None \<Rightarrow> cfg)
           \<and> w1 = (case yaml_cache w p of
                      Some cached \<Rightarrow> w\<lparr>trace := trace w @ [LogInfo (yaml_cached_line p)]\<rparr>
                    | None \<Rightarrow>
                        w\<lparr>yaml_cache := (yaml_cache w)(p \<mapsto> cfg),
                          trace := trace w @ [FsOpenRead p, LogInfo (yaml_loaded_line p),
                                              CacheStore p]\<rparr>)
           \<and> yaml_cache w1 p = Some d
           \<and> fs w1 = fs w
           \<and> read_yaml L p w1 =
               (Inr d, w1\<lparr>trace := trace w1 @ [LogInfo (yaml_cached_line p)]\<rparr>)"
proof (cases "yaml_cache w p")
  case None
  let ?w1 = "w\<lparr>yaml_cache := (yaml_cache w)(p \<mapsto> cfg),
                trace := trace w @ [FsOpenRead p, LogInfo (yaml_loaded_line p), CacheStore p]\<rparr>"
  have first: "read_yaml L p w = (Inr cfg, ?w1)"
    by (rule read_yaml_miss_loaded[OF None assms])
  have "yaml_cache ?w1 p = Some cfg" by simp
  from read_yaml_hit[OF this, of L] first None show ?thesis by simp
next
  case (Some c)
  let ?w1 = "w\<lparr>trace := trace w @ [LogInfo (yaml_cached_line p)]\<rparr>"
  have first: "read_yaml L p w = (Inr c, ?w1)" by (rule read_yaml_hit[OF Some])
  have "yaml_cache ?w1 p = Some c" using Some by simp
  from read_yaml_hit[OF this, of L] first Some show ?thesis by simp
qed

lemma sample_stat_config: "stat (fs sample_world) [''config.yaml''] = Inr (File ''a: 1'')"
  by (simp add: stat_def sample_world_def)

lemma sample_stat_empty: "stat (fs sample_world) [''empty.yaml''] = Inr (File [])"
  by (simp add: stat_def sample_world_def)

lemma sample_stat_list: "stat (fs sample_world) [''list.yaml''] = Inr (File ''- 1'')"
  by (simp add: stat_def sample_world_def)




lemma sample_cache_empty: "yaml_cache sample_world p = None"
  by (simp add: sample_world_def)

theorem read_yaml_cache_idempotent_witness:
  "\<exists>w1. read_yaml sample_libs [''config.yaml''] sample_world = (Inr (PBox [(PStr ''a'', PInt 1)]), w1)
      \<and> yaml_cache w1 [''config.yaml''] = Some (PBox [(PStr ''a'', PInt 1)])
      \<and> trace w1 = [FsOpenRead [''config.yaml''],
                     LogInfo ''yaml file: config.yaml loaded successfully'',
                     CacheStore [''config.yaml'']]
      \<and> read_yaml sample_libs [''config.yaml''] w1 =
          (Inr (PBox [(PStr ''a'', PInt 1)]),
           w1\<lparr>trace := trace w1 @ [LogInfo ''yaml file: config.yaml retrieved from cache'']\<rparr>)"
  using read_yaml_cache_idempotent[OF sample_stat_config,
      of sample_libs "PDict [(PStr ''a'', PInt 1)]" "PBox [(PStr ''a'', PInt 1)]"]
  by (simp add: sample_libs_def sample_world_def)




text \<open>
  Claim C3, as amended. On a cache miss \<^verbatim>\<open>read_yaml\<close> opens and parses the file. The
  informational success line is written exactly when the file was opened and parsed:
  it is the next effect after the open, and it is written before the ConfigBox is
  built, so also when the construction of the ConfigBox then fails. When the
  construction succeeds the document is stored in the cache under the path and
  returned, and these are all the effects; when it fails nothing is stored, the call
  fails, and the only further effect is the error line (none for a
  \<^verbatim>\<open>BoxValueError\<close>). A call that returns a document has gone through all these steps.
\<close>

theorem read_yaml_load_order:
  assumes "yaml_cache w p = None" and "read_yaml L p w = (r, w1)"
  shows "(LogInfo (yaml_loaded_line p) \<in> set (drop (length (trace w)) (trace w1))
            \<longleftrightarrow> (\<exists>s content. stat (fs w) p = Inr (File s) \<and> safe_load L s = Inr content))
       \<and> (\<forall>s content. stat (fs w) p = Inr (File s) \<and> safe_load L s = Inr content \<longrightarrow>
            (case ConfigBox content of
               Inr d \<Rightarrow>
                 r = Inr d
                 \<and> w1 = w\<lparr>yaml_cache := (yaml_cache w)(p \<mapsto> d),
                           trace := trace w @ [FsOpenRead p, LogInfo (yaml_loaded_line p),
                                               CacheStore p]\<rparr>
             | Inl e \<Rightarrow>
                 (if exn_class e = BoxValueError
                  then r = Inl (Exn ValueError ''yaml file is empty'')
                     \<and> w1 = w\<lparr>trace := trace w @ [FsOpenRead p, LogInfo (yaml_loaded_line p)]\<rparr>
                  else r = Inl e
                     \<and> w1 = w\<lparr>trace := trace w @ [FsOpenRead p, LogInfo (yaml_loaded_line p),
                                                   LogError (yaml_error_line p e)]\<rparr>)))
       \<and> (\<forall>d. r = Inr d \<longrightarrow>
            (\<exists>s content. stat (fs w) p = Inr (File s) \<and> safe_load L s = Inr content
               \<and> ConfigBox content = Inr d))"
  using assms(1)
proof (cases rule: read_yaml_miss_outcomes[where L = L])
  case (open_error e)
  with assms(2) show ?thesis by auto
next
  case (parse_error s e)
  from read_yaml_miss_parse_error[OF assms(1) parse_error] assms(2) parse_error show ?thesis
    by (auto split: if_splits)
next
  case (box_error s content e)
  from read_yaml_miss_box_error[OF assms(1) box_error] assms(2) box_error show ?thesis
    by (auto split: if_splits)
next
  case (loaded s content d)
  from read_yaml_miss_loaded[OF assms(1) loaded] assms(2) loaded show ?thesis
    by auto
qed

theorem read_yaml_load_order_witness:
  "read_yaml sample_libs [''config.yaml''] sample_world =
     (Inr (PBox [(PStr ''a'', PInt 1)]),
      sample_world\<lparr>yaml_cache := [[''config.yaml''] \<mapsto> PBox [(PStr ''a'', PInt 1)]],
                    trace := [FsOpenRead [''config.yaml''],
                              LogInfo ''yaml file: config.yaml loaded successfully'',
                              CacheStore [''config.yaml'']]\<rparr>)"
proof -
  obtain r w1 where rw: "read_yaml sample_libs [''config.yaml''] sample_world = (r, w1)"
    by (cases "read_yaml sample_libs [''config.yaml''] sample_world")
  have sl: "safe_load sample_libs ''a: 1'' = Inr (PDict [(PStr ''a'', PInt 1)])"
    by (simp add: sample_libs_def)
  from read_yaml_load_order[OF sample_cache_empty rw] sample_stat_config sl
  have "case ConfigBox (PDict [(PStr ''a'', PInt 1)]) of
          Inr d \<Rightarrow> r = Inr d
            \<and> w1 = sample_world\<lparr>yaml_cache := (yaml_cache sample_world)([''config.yaml''] \<mapsto> d),
                 trace := trace sample_world @ [FsOpenRead [''config.yaml''],
                            LogInfo (yaml_loaded_line [''config.yaml'']),
                            CacheStore [''config.yaml'']]\<rparr>
        | Inl e \<Rightarrow>
            (if exn_class e = BoxValueError
             then r = Inl (Exn ValueError ''yaml file is empty'')
                \<and> w1 = sample_world\<lparr>trace := trace sample_world @ [FsOpenRead [''config.yaml''],
                            LogInfo (yaml_loaded_line [''config.yaml''])]\<rparr>
             else r = Inl e
                \<and> w1 = sample_world\<lparr>trace := trace sample_world @ [FsOpenRead [''config.yaml''],
                            LogInfo (yaml_loaded_line [''config.yaml'']),
                            LogError (yaml_error_line [''config.yaml''] e)]\<rparr>)"
    by blast
  with rw show ?thesis by (simp add: sample_world_def)
qed

text \<open>
  The claim C3 as it was stated fails: for an empty file the success line is written
  and the call then fails, and for a valid file the success line precedes the cache store.
\<close>

theorem read_yaml_success_log_counterexample:
  "read_yaml sample_libs [''empty.yaml''] sample_world =
     (Inl (Exn ValueError ''yaml file is empty''),
      sample_world\<lparr>trace := [FsOpenRead [''empty.yaml''],
                              LogInfo ''yaml file: empty.yaml loaded successfully'']\<rparr>)
   \<and> trace (snd (read_yaml sample_libs [''config.yaml''] sample_world)) =
       [FsOpenRead [''config.yaml''],
        LogInfo ''yaml file: config.yaml loaded successfully'',
        CacheStore [''config.yaml'']]"
proof -
  have "read_yaml sample_libs [''empty.yaml''] sample_world =
     (Inl (Exn ValueError ''yaml file is empty''),
      sample_world\<lparr>trace := [FsOpenRead [''empty.yaml''],
                              LogInfo ''yaml file: empty.yaml loaded successfully'']\<rparr>)"
    using read_yaml_miss_box_error[OF sample_cache_empty sample_stat_empty,
        of sample_libs PNone "Exn BoxValueError ''First argument must be mapping or iterable''"]
    by (simp add: sample_libs_def sample_world_def)
  moreover have "trace (snd (read_yaml sample_libs [''config.yaml''] sample_world)) =
       [FsOpenRead [''config.yaml''],
        LogInfo ''yaml file: config.yaml loaded successfully'',
        CacheStore [''config.yaml'']]"
    using read_yaml_miss_loaded[OF sample_cache_empty sample_stat_config,
        of sample_libs "PDict [(PStr ''a'', PInt 1)]" "PBox [(PStr ''a'', PInt 1)]"]
    by (simp add: sample_libs_def sample_world_def)
  ultimately show ?thesis by simp
qed





lemma read_yaml_miss_opens:
  assumes "yaml_cache w p = None"
  shows "\<exists>rest. trace (snd (read_yaml L p w)) = trace w @ FsOpenRead p # rest"
  using assms
proof (cases rule: read_yaml_miss_outcomes[where L = L])
  case (open_error e)
  then show ?thesis by simp
next
  case (parse_error s e)
  from read_yaml_miss_parse_error[OF assms parse_error] show ?thesis by simp
next
  case (box_error s content e)
  from read_yaml_miss_box_error[OF assms box_error] show ?thesis by simp
next
  case (loaded s content d)
  from read_yaml_miss_loaded[OF assms loaded] show ?thesis by simp
qed

lemma read_yaml_frame:
  assumes "read_yaml L p w = (r, w1)"
  shows "fs w1 = fs w"
    and "q \<noteq> p \<Longrightarrow> yaml_cache w1 q = yaml_cache w q"
    and "r = Inl e \<Longrightarrow> yaml_cache w1 = yaml_cache w \<and> yaml_cache w p = None"
proof -
  have "fs w1 = fs w \<and> (q \<noteq> p \<longrightarrow> yaml_cache w1 q = yaml_cache w q)
        \<and> (r = Inl e \<longrightarrow> yaml_cache w1 = yaml_cache w \<and> yaml_cache w p = None)"
  proof (cases "yaml_cache w p")
    case (Some c)
    with assms read_yaml_hit[OF Some, of L] show ?thesis by auto
  next
    case None
    then show ?thesis
    proof (cases rule: read_yaml_miss_outcomes[where L = L])
      case (open_error e')
      with assms None show ?thesis by auto
    next
      case (parse_error s e')
      from read_yaml_miss_parse_error[OF None parse_error] assms None show ?thesis
        by (auto split: if_splits)
    next
      case (box_error s content e')
      from read_yaml_miss_box_error[OF None box_error] assms None show ?thesis
        by (auto split: if_splits)
    next
      case (loaded s content d)
      from read_yaml_miss_loaded[OF None loaded] assms None show ?thesis by auto
    qed
  qed
  then show "fs w1 = fs w"
    and "q \<noteq> p \<Longrightarrow> yaml_cache w1 q = yaml_cache w q"
    and "r = Inl e \<Longrightarrow> yaml_cache w1 = yaml_cache w \<and> yaml_cache w p = None"
    by simp_all
qed

text \<open>
  Claim C9. A call of \<^verbatim>\<open>read_yaml\<close> changes the cache at no key other than its
  path. A call that fails leaves the cache as it was, and the next call for the same
  path opens the file again.
\<close>

theorem read_yaml_cache_write:
  assumes "read_yaml L p w = (r, w1)"
  shows "(\<forall>q. q \<noteq> p \<longrightarrow> yaml_cache w1 q = yaml_cache w q)
       \<and> (\<forall>e. r = Inl e \<longrightarrow>
            yaml_cache w1 = yaml_cache w
            \<and> (\<exists>rest. trace (snd (read_yaml L p w1)) = trace w1 @ FsOpenRead p # rest))"
proof (intro conjI allI impI)
  fix q assume "q \<noteq> p"
  then show "yaml_cache w1 q = yaml_cache w q" by (rule read_yaml_frame(2)[OF assms])
next
  fix e assume "r = Inl e"
  then show "yaml_cache w1 = yaml_cache w" using read_yaml_frame(3)[OF assms] by simp
next
  fix e assume "r = Inl e"
  then have "yaml_cache w1 p = None" using read_yaml_frame(3)[OF assms] by simp
  then show "\<exists>rest. trace (snd (read_yaml L p w1)) = trace w1 @ FsOpenRead p # rest"
    by (rule read_yaml_miss_opens)
qed

theorem read_yaml_cache_write_witness:
  "yaml_cache (snd (read_yaml sample_libs [''empty.yaml''] sample_world)) = yaml_cache sample_world
   \<and> (\<exists>rest. trace (snd (read_yaml sample_libs [''empty.yaml'']
                     (snd (read_yaml sample_libs [''empty.yaml''] sample_world)))) =
          trace (snd (read_yaml sample_libs [''empty.yaml''] sample_world))
          @ FsOpenRead [''empty.yaml''] # rest)"
proof -
  have r: "read_yaml sample_libs [''empty.yaml''] sample_world =
     (Inl (Exn ValueError ''yaml file is empty''),
      snd (read_yaml sample_libs [''empty.yaml''] sample_world))"
    using read_yaml_miss_box_error[OF sample_cache_empty sample_stat_empty,
        of sample_libs PNone "Exn BoxValueError ''First argument must be mapping or iterable''"]
    by (simp add: sample_libs_def)
  from read_yaml_cache_write[OF r] show ?thesis by simp
qed

section \<open>Properties of get_size\<close>

lemma round_half_even_near:
  assumes "0 < b"
  shows "2 * \<bar>int b * int (round_half_even a b) - int a\<bar> \<le> int b"
proof -
  define q where "q = a div b"
  define r where "r = a mod b"
  have a: "a = b * q + r" and r: "r < b"
    using assms by (simp_all add: q_def r_def)
  have ia: "int a = int b * int q + int r" using a by (metis of_nat_add of_nat_mult)
  consider "2 * r < b" | "b < 2 * r" | "2 * r = b" by linarith
  then show ?thesis
  proof cases
    case 1
    then have "round_half_even a b = q" by (simp add: round_half_even_def q_def r_def Let_def)
    with 1 ia show ?thesis by simp
  next
    case 2
    then have "round_half_even a b = q + 1" by (simp add: round_half_even_def q_def r_def Let_def)
    with 2 r ia show ?thesis by (simp add: algebra_simps)
  next
    case 3
    then have "round_half_even a b = q \<or> round_half_even a b = q + 1"
      by (simp add: round_half_even_def q_def r_def Let_def)
    with 3 ia show ?thesis by (auto simp: algebra_simps)
  qed
qed

lemma os_path_getsize_file:
  "stat (fs w) p = Inr (File content) \<Longrightarrow>
   os_path_getsize p w = (Inr (length content), emit (FsStat p) w)"
  by (simp add: os_path_getsize_def)

lemma get_size_file:
  assumes "stat (fs w) p = Inr (File content)"
  shows "get_size p w =
    (Inr (PStr (if length content < 1024 then show_nat (length content) @ '' bytes''
                else if length content < 1024 ^ 2
                     then ''~ '' @ format_2f (length content) 1024 @ '' KB''
                     else ''~ '' @ format_2f (length content) (1024 ^ 2) @ '' MB'')),
     emit (FsStat p) w)"
  using assms by (simp add: get_size_def os_path_getsize_file)

lemma format_2f_near:
  assumes "0 < den" and "num < 2 ^ 53"
  shows "\<exists>h. format_2f num den =
               show_nat (h div 100) @ ''.'' @ [digit_char (h div 10 mod 10), digit_char (h mod 10)]
             \<and> 2 * \<bar>int den * int h - 100 * int num\<bar> \<le> int den"
proof -
  let ?h = "round_half_even (100 * num) den"
  have "format_2f num den =
          show_nat (?h div 100) @ ''.'' @ [digit_char (?h div 10 mod 10), digit_char (?h mod 10)]"
    using assms(2) by (simp add: format_2f_def round53_def Let_def)
  moreover have "2 * \<bar>int den * int ?h - 100 * int num\<bar> \<le> int den"
    using round_half_even_near[OF assms(1), of "100 * num"] by simp
  ultimately show ?thesis by blast
qed

lemma format_2f_shape:
  "\<exists>h. format_2f num den =
         show_nat (h div 100) @ ''.'' @ [digit_char (h div 10 mod 10), digit_char (h mod 10)]"
  unfolding format_2f_def Let_def by blast

lemma show_nat_digit: "n < 10 \<Longrightarrow> show_nat n = [digit_char n]"
  by (simp add: show_nat.simps)

lemma show_nat_step: "10 \<le> n \<Longrightarrow> show_nat n = show_nat (n div 10) @ [digit_char (n mod 10)]"
  by (subst show_nat.simps) simp

text \<open>
  Claim C4. On an existing regular file of \<open>n\<close> bytes \<^verbatim>\<open>get_size\<close> returns, after one
  \<^verbatim>\<open>stat\<close> call: for \<open>n < 1024\<close> the decimal byte count followed by \<^verbatim>\<open>bytes\<close>; for
  \<open>1024 \<le> n < 1024\<^sup>2\<close> the marker \<^verbatim>\<open>~\<close>, a number with two decimals and \<^verbatim>\<open>KB\<close>,
  the number being within half a hundredth of \<open>n / 1024\<close>; for \<open>1024\<^sup>2 \<le> n\<close> the same
  with \<^verbatim>\<open>MB\<close> and \<open>n / 1024\<^sup>2\<close> (the bound is stated for sizes below \<open>2\<^sup>5\<^sup>3\<close>, where the
  double is the exact quotient). The lower bound of each tier is inclusive.
\<close>

theorem get_size_tiers:
  assumes "stat (fs w) p = Inr (File content)" and "n = length content"
  shows "\<exists>s. get_size p w = (Inr (PStr s), emit (FsStat p) w)
     \<and> (n < 1024 \<longrightarrow> s = show_nat n @ '' bytes'')
     \<and> (1024 \<le> n \<and> n < 1024 ^ 2 \<longrightarrow>
          (\<exists>h. s = ''~ '' @ two_decimals h @ '' KB''
              \<and> 2 * \<bar>1024 * int h - 100 * int n\<bar> \<le> 1024))
     \<and> (1024 ^ 2 \<le> n \<longrightarrow>
          (\<exists>h. s = ''~ '' @ two_decimals h @ '' MB''
              \<and> (n < 2 ^ 53 \<longrightarrow> 2 * \<bar>1024 ^ 2 * int h - 100 * int n\<bar> \<le> 1024 ^ 2)))"
proof -
  note gs = get_size_file[OF assms(1), folded assms(2)]
  consider "n < 1024" | "1024 \<le> n" "n < 1024 ^ 2" | "1024 ^ 2 \<le> n" "n < 2 ^ 53" | "2 ^ 53 \<le> n"
    by linarith
  then show ?thesis
  proof cases
    case 1
    then show ?thesis by (simp add: gs)
  next
    case 2
    then have "n < 2 ^ 53" by simp
    from format_2f_near[of 1024 n, OF _ this] obtain h where
      h: "format_2f n 1024 = two_decimals h" "2 * \<bar>1024 * int h - 100 * int n\<bar> \<le> 1024"
      by auto
    have "get_size p w = (Inr (PStr (''~ '' @ two_decimals h @ '' KB'')), emit (FsStat p) w)"
      using 2 h(1) by (simp add: gs)
    moreover have "\<exists>h'. ''~ '' @ two_decimals h @ '' KB'' = ''~ '' @ two_decimals h' @ '' KB''
              \<and> 2 * \<bar>1024 * int h' - 100 * int n\<bar> \<le> 1024"
      using h(2) by blast
    ultimately show ?thesis using 2 by (intro exI[of _ "''~ '' @ two_decimals h @ '' KB''"]) simp
  next
    case 3
    from format_2f_near[of "1024 ^ 2" n, OF _ 3(2)] obtain h where
      h: "format_2f n (1024 ^ 2) = two_decimals h"
      "2 * \<bar>1024 ^ 2 * int h - 100 * int n\<bar> \<le> 1024 ^ 2"
      by auto
    have "get_size p w = (Inr (PStr (''~ '' @ two_decimals h @ '' MB'')), emit (FsStat p) w)"
      using 3 h(1) by (simp add: gs)
    moreover have "\<exists>h'. ''~ '' @ two_decimals h @ '' MB'' = ''~ '' @ two_decimals h' @ '' MB''
              \<and> (n < 2 ^ 53 \<longrightarrow> 2 * \<bar>1024 ^ 2 * int h' - 100 * int n\<bar> \<le> 1024 ^ 2)"
      using h(2) by blast
    ultimately show ?thesis using 3 by (intro exI[of _ "''~ '' @ two_decimals h @ '' MB''"]) simp
  next
    case 4
    then have big: "1024 ^ 2 \<le> n" "\<not> n < 1024" "\<not> n < 1024 ^ 2" "\<not> n < 2 ^ 53" by simp_all
    from format_2f_shape[of n "1024 ^ 2"] obtain h where
      h: "format_2f n (1024 ^ 2) = two_decimals h" by auto
    have "get_size p w = (Inr (PStr (''~ '' @ two_decimals h @ '' MB'')), emit (FsStat p) w)"
      using big h by (simp add: gs)
    moreover have "\<exists>h'. ''~ '' @ two_decimals h @ '' MB'' = ''~ '' @ two_decimals h' @ '' MB''
              \<and> (n < 2 ^ 53 \<longrightarrow> 2 * \<bar>1024 ^ 2 * int h' - 100 * int n\<bar> \<le> 1024 ^ 2)"
      using big by blast
    ultimately show ?thesis using big by (intro exI[of _ "''~ '' @ two_decimals h @ '' MB''"]) simp
  qed
qed

lemma size_world_stat:
  "stat (fs (size_world n)) [''blob''] = Inr (File (replicate n CHR ''x''))"
  by (simp add: size_world_def stat_def)

lemma show_nat_1023: "show_nat 1023 = ''1023''"
  by (simp add: show_nat_step show_nat_digit digit_char_def)

theorem get_size_tiers_witness:
  "fst (get_size [''blob''] (size_world 1023)) = Inr (PStr ''1023 bytes'')
   \<and> fst (get_size [''blob''] (size_world 1024)) = Inr (PStr ''~ 1.00 KB'')"
proof -
  from get_size_tiers[OF size_world_stat, of 1023 1023]
  have a: "fst (get_size [''blob''] (size_world 1023)) = Inr (PStr ''1023 bytes'')"
    by (auto simp: show_nat_1023)
  from get_size_tiers[OF size_world_stat, of 1024 1024] obtain h where
    s: "fst (get_size [''blob''] (size_world 1024)) = Inr (PStr (''~ '' @ two_decimals h @ '' KB''))"
    and h: "2 * \<bar>1024 * int h - 100 * int (1024::nat)\<bar> \<le> 1024"
    by auto
  from h have hh: "\<bar>1024 * int h - 102400\<bar> \<le> 512" by simp
  from hh have "1024 * int h - 102400 \<le> 512" and "- 512 \<le> 1024 * int h - 102400"
    by (simp_all add: abs_le_iff)
  then have "int h \<le> 100" and "100 \<le> int h" by simp_all
  then have "h = 100" by simp
  with s have b: "fst (get_size [''blob''] (size_world 1024)) = Inr (PStr ''~ 1.00 KB'')"
    by (simp add: show_nat_digit digit_char_def)
  from a b show ?thesis by simp
qed

section \<open>Properties of the ensure_annotations decorator\<close>

lemma ensure_annotations_reject:
  "check_args L f (zip args params) = Some e \<Longrightarrow>
   ensure_annotations L f params rt body args w = (Inl e, w)"
  by (simp add: ensure_annotations_def)

lemma check_args_first_class:
  assumes "t \<noteq> TAny" and "\<not> isinstance_class v t"
  shows "\<exists>e. check_args L f ((v, arg, Some t) # rest) = Some e \<and> exn_class e = EnsureError"
  using assms by (simp add: isinstance_def)

lemma check_args_second_class:
  assumes "t1 \<noteq> TAny" and "isinstance_class v1 t1" and "t \<noteq> TAny" and "\<not> isinstance_class v t"
  shows "\<exists>e. check_args L f ((v1, a1, Some t1) # (v, arg, Some t) # rest) = Some e
             \<and> exn_class e = EnsureError"
  using assms by (simp add: isinstance_def)

text \<open>
  Claim C10. Every decorated function tests its positional arguments against the
  annotations before its body runs. Called with a first argument that is not a
  \<^verbatim>\<open>Path\<close> (whatever the other arguments are), \<^verbatim>\<open>read_yaml\<close>, \<^verbatim>\<open>save_json\<close>,
  \<^verbatim>\<open>load_json\<close>, \<^verbatim>\<open>load_bin\<close> and \<^verbatim>\<open>get_size\<close> raise \<^verbatim>\<open>EnsureError\<close> and leave the
  world exactly as it was: no filesystem call, no log line, no cache store. The same
  holds for \<^verbatim>\<open>save_json\<close> called with a path and data that is not a \<^verbatim>\<open>dict\<close>, and for
  \<^verbatim>\<open>create_directories\<close> called with something that is not a \<^verbatim>\<open>list\<close>. \<^verbatim>\<open>save_bin\<close>
  called with a second argument that is not a \<^verbatim>\<open>Path\<close> fails too and leaves the world
  as it was; its first parameter is annotated \<^verbatim>\<open>Any\<close>, which is tested first, so the
  exception is the one \<^verbatim>\<open>isinstance(data, Any)\<close> raises when it raises one, and
  \<^verbatim>\<open>EnsureError\<close> otherwise.
\<close>

theorem annotations_enforced:
  shows "(\<not> isinstance_class v TPath \<longrightarrow>
            (\<exists>e. checked_read_yaml L (v # rest) w = (Inl e, w) \<and> exn_class e = EnsureError)
          \<and> (\<exists>e. checked_save_json L (v # rest) w = (Inl e, w) \<and> exn_class e = EnsureError)
          \<and> (\<exists>e. checked_load_json L (v # rest) w = (Inl e, w) \<and> exn_class e = EnsureError)
          \<and> (\<exists>e. checked_load_bin L (v # rest) w = (Inl e, w) \<and> exn_class e = EnsureError)
          \<and> (\<exists>e. checked_get_size L (v # rest) w = (Inl e, w) \<and> exn_class e = EnsureError)
          \<and> (\<exists>e. checked_save_bin L (d # v # rest) w = (Inl e, w)
                 \<and> (case isinstance_Any L d of
                       Inl e' \<Rightarrow> e = e'
                     | Inr b \<Rightarrow> exn_class e = EnsureError)))
       \<and> (\<not> isinstance_class v TDict \<longrightarrow>
            (\<exists>e. checked_save_json L (PPath p # v # rest) w = (Inl e, w)
                 \<and> exn_class e = EnsureError))
       \<and> (\<not> isinstance_class v TList \<longrightarrow>
            (\<exists>e. checked_create_directories L (v # rest) w = (Inl e, w)
                 \<and> exn_class e = EnsureError))"
proof (intro conjI impI)
  assume v: "\<not> isinstance_class v TPath"
  show "\<exists>e. checked_read_yaml L (v # rest) w = (Inl e, w) \<and> exn_class e = EnsureError"
    using v by (simp add: checked_read_yaml_def ensure_annotations_def isinstance_def)
  show "\<exists>e. checked_save_json L (v # rest) w = (Inl e, w) \<and> exn_class e = EnsureError"
    using v by (simp add: checked_save_json_def ensure_annotations_def isinstance_def)
  show "\<exists>e. checked_load_json L (v # rest) w = (Inl e, w) \<and> exn_class e = EnsureError"
    using v by (simp add: checked_load_json_def ensure_annotations_def isinstance_def)
  show "\<exists>e. checked_load_bin L (v # rest) w = (Inl e, w) \<and> exn_class e = EnsureError"
    using v by (simp add: checked_load_bin_def ensure_annotations_def isinstance_def)
  show "\<exists>e. checked_get_size L (v # rest) w = (Inl e, w) \<and> exn_class e = EnsureError"
    using v by (simp add: checked_get_size_def ensure_annotations_def isinstance_def)
  show "\<exists>e. checked_save_bin L (d # v # rest) w = (Inl e, w)
          \<and> (case isinstance_Any L d of Inl e' \<Rightarrow> e = e' | Inr b \<Rightarrow> exn_class e = EnsureError)"
    using v by (simp add: checked_save_bin_def ensure_annotations_def isinstance_def
        split: sum.splits bool.splits)
next
  assume v: "\<not> isinstance_class v TDict"
  show "\<exists>e. checked_save_json L (PPath p # v # rest) w = (Inl e, w) \<and> exn_class e = EnsureError"
    using v by (simp add: checked_save_json_def ensure_annotations_def isinstance_def)
next
  assume v: "\<not> isinstance_class v TList"
  show "\<exists>e. checked_create_directories L (v # rest) w = (Inl e, w) \<and> exn_class e = EnsureError"
    using v by (simp add: checked_create_directories_def ensure_annotations_def isinstance_def)
qed

theorem annotations_enforced_witness:
  "(\<exists>e. checked_read_yaml sample_libs [PStr ''config.yaml''] sample_world = (Inl e, sample_world)
        \<and> exn_class e = EnsureError)
   \<and> (\<exists>e. checked_load_json sample_libs [PStr ''config.yaml''] sample_world = (Inl e, sample_world)
        \<and> exn_class e = EnsureError)
   \<and> (\<exists>e. checked_save_json sample_libs [PPath [''out.json''], PList []] sample_world
             = (Inl e, sample_world) \<and> exn_class e = EnsureError)
   \<and> (\<exists>e. checked_create_directories sample_libs [PStr ''data''] sample_world
             = (Inl e, sample_world) \<and> exn_class e = EnsureError)"
  using annotations_enforced[of "PStr ''config.yaml''" sample_libs "[]" sample_world PNone "[''out.json'']"]
    annotations_enforced[of "PList []" sample_libs "[]" sample_world PNone "[''out.json'']"]
    annotations_enforced[of "PStr ''data''" sample_libs "[]" sample_world PNone "[''out.json'']"]
  by simp

section \<open>Error-level log lines\<close>

lemma error_lines_emit [simp]:
  "error_lines (emit e w) = error_lines w @ (if is_error_line e then [e] else [])"
  by (simp add: error_lines_def emit_def)

lemma error_lines_trace_update [simp]:
  "error_lines (w\<lparr>trace := t\<rparr>) = filter is_error_line t"
  by (simp add: error_lines_def)

lemma error_lines_fs_update [simp]: "error_lines (w\<lparr>fs := f\<rparr>) = error_lines w"
  by (simp add: error_lines_def)

lemma error_lines_cache_update [simp]: "error_lines (w\<lparr>yaml_cache := c\<rparr>) = error_lines w"
  by (simp add: error_lines_def)

lemma open_read_error_lines: "open_read p w = (r, w1) \<Longrightarrow> error_lines w1 = error_lines w"
  by (auto simp: open_read_def Let_def split: sum.splits node.splits)

lemma open_write_error_lines: "open_write p w = (r, w1) \<Longrightarrow> error_lines w1 = error_lines w"
  by (auto simp: open_write_def Let_def split: sum.splits node.splits option.splits if_splits)

lemma save_json_error_lines: "save_json L p d w = (r, w1) \<Longrightarrow> error_lines w1 = error_lines w"
  by (auto simp: save_json_def write_file_def split: prod.splits sum.splits option.splits
      dest: open_write_error_lines)

lemma load_json_error_lines: "load_json L p w = (r, w1) \<Longrightarrow> error_lines w1 = error_lines w"
  by (auto simp: load_json_def Let_def split: prod.splits sum.splits dest: open_read_error_lines)

lemma save_bin_error_lines: "save_bin L d p w = (r, w1) \<Longrightarrow> error_lines w1 = error_lines w"
  by (auto simp: save_bin_def write_file_def split: prod.splits sum.splits option.splits
      dest: open_write_error_lines)

lemma load_bin_error_lines: "load_bin L p w = (r, w1) \<Longrightarrow> error_lines w1 = error_lines w"
  by (auto simp: load_bin_def split: prod.splits sum.splits dest: open_read_error_lines)

lemma get_size_error_lines: "get_size p w = (r, w1) \<Longrightarrow> error_lines w1 = error_lines w"
  by (auto simp: get_size_def os_path_getsize_def split: prod.splits sum.splits if_splits)

lemma ensure_annotations_cases:
  assumes "ensure_annotations L f ps rt body args w = (r, w1)"
  shows "w1 = w \<or> (\<exists>r'. body args w = (r', w1))"
  using assms
  by (auto simp: ensure_annotations_def split: option.splits prod.splits sum.splits bool.splits)

lemma ensure_annotations_error_lines:
  assumes "ensure_annotations L f ps rt body args w = (r, w1)"
    and "\<And>r'. body args w = (r', w1) \<Longrightarrow> error_lines w1 = error_lines w"
  shows "error_lines w1 = error_lines w"
  using ensure_annotations_cases[OF assms(1)] assms(2) by auto

lemma checked_save_json_error_lines:
  "checked_save_json L args w = (r, w1) \<Longrightarrow> error_lines w1 = error_lines w"
  unfolding checked_save_json_def
  by (erule ensure_annotations_error_lines)
     (auto simp: bad_call_def split: list.splits pyval.splits dest: save_json_error_lines)

lemma checked_load_json_error_lines:
  "checked_load_json L args w = (r, w1) \<Longrightarrow> error_lines w1 = error_lines w"
  unfolding checked_load_json_def
  by (erule ensure_annotations_error_lines)
     (auto simp: bad_call_def split: list.splits pyval.splits dest: load_json_error_lines)

lemma checked_save_bin_error_lines:
  "checked_save_bin L args w = (r, w1) \<Longrightarrow> error_lines w1 = error_lines w"
  unfolding checked_save_bin_def
  by (erule ensure_annotations_error_lines)
     (auto simp: bad_call_def split: list.splits pyval.splits dest: save_bin_error_lines)

lemma checked_load_bin_error_lines:
  "checked_load_bin L args w = (r, w1) \<Longrightarrow> error_lines w1 = error_lines w"
  unfolding checked_load_bin_def
  by (erule ensure_annotations_error_lines)
     (auto simp: bad_call_def split: list.splits pyval.splits dest: load_bin_error_lines)

lemma checked_get_size_error_lines:
  "checked_get_size L args w = (r, w1) \<Longrightarrow> error_lines w1 = error_lines w"
  unfolding checked_get_size_def
  by (erule ensure_annotations_error_lines)
     (auto simp: bad_call_def split: list.splits pyval.splits dest: get_size_error_lines)

lemma read_yaml_try_error_lines:
  "read_yaml_try L p w = (r, w0) \<Longrightarrow> error_lines w0 = error_lines w"
  by (auto simp: read_yaml_try_def Let_def split: prod.splits sum.splits
      dest: open_read_error_lines)

lemma read_yaml_error_lines:
  assumes "yaml_cache w p = None" and "read_yaml L p w = (r, w1)"
  shows "case fst (read_yaml_try L p w) of
           Inr d \<Rightarrow> r = Inr d \<and> error_lines w1 = error_lines w
         | Inl e \<Rightarrow>
             if exn_class e = BoxValueError
             then r = Inl (Exn ValueError ''yaml file is empty'') \<and> error_lines w1 = error_lines w
             else r = Inl e \<and> error_lines w1 = error_lines w @ [LogError (yaml_error_line p e)]"
proof -
  obtain r0 w0 where t: "read_yaml_try L p w = (r0, w0)" by (cases "read_yaml_try L p w")
  from read_yaml_try_error_lines[OF t] assms t show ?thesis
    by (auto simp: read_yaml_def read_yaml_except_def split: sum.splits)
qed

lemma checked_read_yaml_miss:
  assumes "yaml_cache w p = None" and "checked_read_yaml L [PPath p] w = (r, w1)"
  shows "\<exists>r'. read_yaml L p w = (r', w1) \<and> (\<forall>e. r' = Inl e \<longrightarrow> r = Inl e)"
  using assms(2)
  by (auto simp: checked_read_yaml_def ensure_annotations_def isinstance_def
      split: prod.splits sum.splits bool.splits)

text \<open>
  Claim C8, as amended. \<^verbatim>\<open>logger.error\<close> is called at one place of the module, line
  49 of \<^verbatim>\<open>read_yaml\<close>. Whatever their arguments and whether they fail or not,
  \<^verbatim>\<open>save_json\<close>, \<^verbatim>\<open>load_json\<close>, \<^verbatim>\<open>save_bin\<close>, \<^verbatim>\<open>load_bin\<close> and \<^verbatim>\<open>get_size\<close> add no
  error-level line to the log: their failures reach the caller unlogged. A call of
  \<^verbatim>\<open>read_yaml\<close> on a path that is not cached, in which the \<^verbatim>\<open>try\<close> block raises,
  adds exactly one error-level line and returns the exception of the \<^verbatim>\<open>try\<close> block
  when that exception is not a \<^verbatim>\<open>BoxValueError\<close>, and adds none and returns
  \<^verbatim>\<open>ValueError("yaml file is empty")\<close> when it is.
\<close>

theorem error_log_sites:
  "(checked_save_json L args w = (r, w1) \<longrightarrow> error_lines w1 = error_lines w)
   \<and> (checked_load_json L args w = (r, w1) \<longrightarrow> error_lines w1 = error_lines w)
   \<and> (checked_save_bin L args w = (r, w1) \<longrightarrow> error_lines w1 = error_lines w)
   \<and> (checked_load_bin L args w = (r, w1) \<longrightarrow> error_lines w1 = error_lines w)
   \<and> (checked_get_size L args w = (r, w1) \<longrightarrow> error_lines w1 = error_lines w)
   \<and> (yaml_cache w p = None \<and> checked_read_yaml L [PPath p] w = (r, w1) \<longrightarrow>
        (\<forall>e. fst (read_yaml_try L p w) = Inl e \<longrightarrow>
           (if exn_class e = BoxValueError
            then r = Inl (Exn ValueError ''yaml file is empty'') \<and> error_lines w1 = error_lines w
            else r = Inl e \<and> error_lines w1 = error_lines w @ [LogError (yaml_error_line p e)])))"
proof (intro conjI impI allI)
  fix e
  assume a: "yaml_cache w p = None \<and> checked_read_yaml L [PPath p] w = (r, w1)"
    and e: "fst (read_yaml_try L p w) = Inl e"
  from a have miss: "yaml_cache w p = None"
    and call: "checked_read_yaml L [PPath p] w = (r, w1)" by simp_all
  from checked_read_yaml_miss[OF miss call] obtain r'
    where r': "read_yaml L p w = (r', w1)" "\<forall>e. r' = Inl e \<longrightarrow> r = Inl e" by blast
  from read_yaml_error_lines[OF miss r'(1)] e r'(2)
  show "if exn_class e = BoxValueError
        then r = Inl (Exn ValueError ''yaml file is empty'') \<and> error_lines w1 = error_lines w
        else r = Inl e \<and> error_lines w1 = error_lines w @ [LogError (yaml_error_line p e)]"
    by (auto split: if_splits)
qed (auto dest: checked_save_json_error_lines checked_load_json_error_lines
      checked_save_bin_error_lines checked_load_bin_error_lines checked_get_size_error_lines)

lemma sample_stat_missing_json: "stat (fs sample_world) [''missing.json''] = Inl FileNotFoundError"
  by (simp add: stat_def sample_world_def)

text \<open>
  The claim C8 as it was stated fails: \<^verbatim>\<open>load_json\<close> and \<^verbatim>\<open>get_size\<close> on a path that
  does not exist fail with \<^verbatim>\<open>FileNotFoundError\<close>, and \<^verbatim>\<open>read_yaml\<close> on an empty file
  fails with \<^verbatim>\<open>ValueError\<close>, and none of the three calls writes an error-level line.
\<close>

theorem error_log_counterexample:
  "checked_load_json sample_libs [PPath [''missing.json'']] sample_world =
     (Inl (Exn FileNotFoundError
             (''[Errno 2] No such file or directory: 'missing.json'' @ [CHR 0x27])),
      sample_world\<lparr>trace := [FsOpenRead [''missing.json'']]\<rparr>)
   \<and> checked_get_size sample_libs [PPath [''missing.json'']] sample_world =
     (Inl (Exn FileNotFoundError
             (''[Errno 2] No such file or directory: 'missing.json'' @ [CHR 0x27])),
      sample_world\<lparr>trace := [FsStat [''missing.json'']]\<rparr>)
   \<and> checked_read_yaml sample_libs [PPath [''empty.yaml'']] sample_world =
     (Inl (Exn ValueError ''yaml file is empty''),
      sample_world\<lparr>trace := [FsOpenRead [''empty.yaml''],
                              LogInfo ''yaml file: empty.yaml loaded successfully'']\<rparr>)"
proof (intro conjI)
  show "checked_load_json sample_libs [PPath [''missing.json'']] sample_world =
     (Inl (Exn FileNotFoundError
             (''[Errno 2] No such file or directory: 'missing.json'' @ [CHR 0x27])),
      sample_world\<lparr>trace := [FsOpenRead [''missing.json'']]\<rparr>)"
    by (simp add: checked_load_json_def ensure_annotations_def isinstance_def load_json_def
        open_read_cases sample_stat_missing_json os_error_def)
       (simp add: sample_world_def)
  show "checked_get_size sample_libs [PPath [''missing.json'']] sample_world =
     (Inl (Exn FileNotFoundError
             (''[Errno 2] No such file or directory: 'missing.json'' @ [CHR 0x27])),
      sample_world\<lparr>trace := [FsStat [''missing.json'']]\<rparr>)"
    by (simp add: checked_get_size_def ensure_annotations_def isinstance_def get_size_def
        os_path_getsize_def sample_stat_missing_json os_error_def emit_def)
       (simp add: sample_world_def)
  have "read_yaml sample_libs [''empty.yaml''] sample_world =
     (Inl (Exn ValueError ''yaml file is empty''),
      sample_world\<lparr>trace := [FsOpenRead [''empty.yaml''],
                              LogInfo ''yaml file: empty.yaml loaded successfully'']\<rparr>)"
    using read_yaml_miss_box_error[OF sample_cache_empty sample_stat_empty,
        of sample_libs PNone "Exn BoxValueError ''First argument must be mapping or iterable''"]
    by (simp add: sample_libs_def sample_world_def)
  then show "checked_read_yaml sample_libs [PPath [''empty.yaml'']] sample_world =
     (Inl (Exn ValueError ''yaml file is empty''),
      sample_world\<lparr>trace := [FsOpenRead [''empty.yaml''],
                              LogInfo ''yaml file: empty.yaml loaded successfully'']\<rparr>)"
    by (simp add: checked_read_yaml_def ensure_annotations_def isinstance_def)
qed

lemma sample_try_list:
  "fst (read_yaml_try sample_libs [''list.yaml''] sample_world)
     = Inl (Exn TypeError ''cannot unpack non-iterable int object'')"
  by (simp add: read_yaml_try_def open_read_cases sample_stat_list)
     (simp add: sample_libs_def)

theorem error_log_sites_witness:
  "fst (checked_read_yaml sample_libs [PPath [''list.yaml'']] sample_world) =
     Inl (Exn TypeError ''cannot unpack non-iterable int object'')
   \<and> error_lines (snd (checked_read_yaml sample_libs [PPath [''list.yaml'']] sample_world)) =
       [LogError ''Error reading YAML file at list.yaml: cannot unpack non-iterable int object'']
   \<and> error_lines (snd (checked_load_json sample_libs [PPath [''missing.json'']] sample_world)) = []"
  using error_log_sites[of sample_libs "[PPath [''missing.json'']]" sample_world
      "fst (checked_load_json sample_libs [PPath [''missing.json'']] sample_world)"
      "snd (checked_load_json sample_libs [PPath [''missing.json'']] sample_world)"
      "[''list.yaml'']"]
    error_log_sites[of sample_libs "[]" sample_world
      "fst (checked_read_yaml sample_libs [PPath [''list.yaml'']] sample_world)"
      "snd (checked_read_yaml sample_libs [PPath [''list.yaml'']] sample_world)"
      "[''list.yaml'']"]
    sample_cache_empty sample_try_list
  by (simp add: error_lines_def sample_world_def)

section \<open>Path resolution\<close>

declare makedirs.simps [simp del]




lemma stat_nil [simp]: "stat f [] = Inr Dir"
  by (simp add: stat_def)





lemma fs_grows_refl [simp]: "fs_grows f f"
  by (simp add: fs_grows_def)



section \<open>Properties of save_json and load_json\<close>







section \<open>Properties of create_directories\<close>


lemma fs_emit [simp]: "fs (emit e w) = fs w"
  by (simp add: emit_def)

lemma yaml_cache_emit [simp]: "yaml_cache (emit e w) = yaml_cache w"
  by (simp add: emit_def)

lemma trace_emit [simp]: "trace (emit e w) = trace w @ [e]"
  by (simp add: emit_def)

lemma fs_log_if [simp]: "fs (log_if v line w) = fs w"
  by (simp add: log_if_def)

lemma yaml_cache_log_if [simp]: "yaml_cache (log_if v line w) = yaml_cache w"
  by (simp add: log_if_def)

lemma trace_log_if: "trace (log_if v line w) = trace w @ (if v then [LogInfo line] else [])"
  by (simp add: log_if_def)








declare create_directories.simps(2) [simp del]




lemma split1: "split_segments [] ''out/models'' = [''out'', ''models'']" by simp
lemma split2: "split_segments [] ''data/raw'' = [''data'', ''raw'']" by simp
lemma split3: "split_segments [] ''config.yaml/sub'' = [''config.yaml'', ''sub'']" by simp
lemma split4: "split_segments [] ''config.yaml'' = [''config.yaml'']" by simp




end
